theory Spec2Isabelle
  imports Main
begin

section \<open>Python values, errors and the host application\<close>

text \<open>
  The wrappers of \<^verbatim>\<open>rpw/base.py\<close> and \<^verbatim>\<open>rpw/ui/selection.py\<close> run inside a host
  application and pass Python values around. A value is one of the kinds the two modules
  can tell apart with \<^verbatim>\<open>isinstance\<close>: \<^verbatim>\<open>None\<close>, an \<^verbatim>\<open>int\<close>, a string, a list, a
  type object, a \<^verbatim>\<open>DB.ElementId\<close> (compared by its integer value), a \<^verbatim>\<open>DB.Element\<close>
  (whose \<^verbatim>\<open>Id\<close> is the identifier it carries), the host's \<^verbatim>\<open>uidoc.Selection\<close> object, a
  bound method of a host object (known by the name of the method), a reference
  \<open>Obj c p\<close> to any other host object of class \<open>c\<close> living at address \<open>p\<close>, or the
  value \<open>Builtin v a\<close> of one of the attributes that every Python object has (\<open>a\<close>,
  read on \<open>v\<close>), about which nothing more is modelled. Two references are the same
  object exactly when they are equal. The class hierarchy of host objects is flat here:
  every class derives from \<^verbatim>\<open>object\<close> only.
\<close>

datatype pytype =
    T_object | T_NoneType | T_int | T_str | T_list | T_type | T_method | T_builtin
  | T_ElementId | T_Element | T_Selection | T_Host string

type_synonym element_id = int
type_synonym addr = nat

datatype pyval =
    PyNone
  | PyInt int
  | PyStr string
  | PyList "pyval list"
  | PyType pytype
  | ElementId element_id
  | Element element_id
  | UISelection
  | BoundMethod string
  | Obj string addr
  | Builtin pyval string

fun type_of :: "pyval \<Rightarrow> pytype" where
  "type_of PyNone = T_NoneType"
| "type_of (PyInt n) = T_int"
| "type_of (PyStr s) = T_str"
| "type_of (PyList xs) = T_list"
| "type_of (PyType t) = T_type"
| "type_of (ElementId n) = T_ElementId"
| "type_of (Element n) = T_Element"
| "type_of UISelection = T_Selection"
| "type_of (BoundMethod m) = T_method"
| "type_of (Obj c p) = T_Host c"
| "type_of (Builtin v a) = T_builtin"

definition isinstance :: "pyval \<Rightarrow> pytype \<Rightarrow> bool" where
  "isinstance v t = (type_of v = t \<or> t = T_object)"

text \<open>Truth value of a Python value, as \<^verbatim>\<open>if elements:\<close> tests it.\<close>

fun truthy :: "pyval \<Rightarrow> bool" where
  "truthy PyNone = False"
| "truthy (PyInt n) = (n \<noteq> 0)"
| "truthy (PyStr s) = (s \<noteq> [])"
| "truthy (PyList xs) = (xs \<noteq> [])"
| "truthy v = True"

text \<open>
  The exception classes of \<^verbatim>\<open>rpw/exceptions.py\<close> that the two modules raise (imported
  there under the names \<^verbatim>\<open>RPW_TypeError\<close> and \<^verbatim>\<open>RPW_Exception\<close>), the built-in ones
  that Python raises by itself, and any error of the host. \<open>RpwTypeError\<close> carries the
  two arguments of its constructor (what was expected, what was received) instead of the
  message formatted from them; the message of \<open>RpwException\<close> is not kept (whether
  formatting it succeeds is, see \<open>raise_RPW_Exception\<close> below).
  \<^verbatim>\<open>RpwParameterNotFound\<close> derives from \<^verbatim>\<open>KeyError\<close>, so \<^verbatim>\<open>except KeyError\<close> catches
  both.
\<close>

datatype error =
    RpwException
  | RpwTypeError pyval pyval
  | RpwParameterNotFound
  | AttributeError
  | KeyError
  | IndexError
  | TypeError
  | HostError string

fun is_KeyError :: "error \<Rightarrow> bool" where
  "is_KeyError KeyError = True"
| "is_KeyError RpwParameterNotFound = True"
| "is_KeyError e = False"

text \<open>
  An attribute of a host object either holds a value or is a property whose getter raises.
  The host keeps, for every address, the attribute table of the object there, the ordered
  identifiers behind \<^verbatim>\<open>uidoc.Selection\<close> (what \<^verbatim>\<open>GetElementIds\<close> returns and
  \<^verbatim>\<open>SetElementIds\<close> replaces, an ordered collection as section 6 of the specification
  describes it), and the lookup \<^verbatim>\<open>doc.GetElement\<close>.
\<close>

datatype slot = Value pyval | Raising error

record host =
  objects :: "addr \<Rightarrow> string \<rightharpoonup> slot"
  selected :: "element_id list"
  doc_GetElement :: "element_id \<Rightarrow> pyval"

definition GetElementIds :: "host \<Rightarrow> element_id list" where
  "GetElementIds h = selected h"

definition SetElementIds :: "element_id list \<Rightarrow> host \<Rightarrow> host" where
  "SetElementIds ids h = h\<lparr>selected := ids\<rparr>"

text \<open>
  The names that every Python 2 object has (those of \<^verbatim>\<open>object\<close>).
\<close>

definition object_names :: "string list" where
  "object_names =
     [''__class__'', ''__delattr__'', ''__doc__'', ''__format__'', ''__getattribute__'',
      ''__hash__'', ''__init__'', ''__new__'', ''__reduce__'', ''__reduce_ex__'',
      ''__repr__'', ''__setattr__'', ''__sizeof__'', ''__str__'', ''__subclasshook__'']"

text \<open>
  What a value provides under a name by itself, \<open>None\<close> when it has nothing of that
  name: a host object what its table lists (a method under the method's own name), and
  identifiers, elements and the selection object the members that the wrappers use.
\<close>

fun own_attr :: "host \<Rightarrow> pyval \<Rightarrow> string \<Rightarrow> (error + pyval) option" where
  "own_attr h (Obj c p) a =
     (case objects h p a of
        None \<Rightarrow> None
      | Some (Value x) \<Rightarrow> Some (Inr x)
      | Some (Raising e) \<Rightarrow> Some (Inl e))"
| "own_attr h (Element n) a =
     (if a = ''Id'' then Some (Inr (ElementId n))
      else if a = ''ToString'' then Some (Inr (BoundMethod a))
      else None)"
| "own_attr h (ElementId n) a =
     (if a = ''IntegerValue'' then Some (Inr (PyInt n))
      else if a = ''ToString'' then Some (Inr (BoundMethod a))
      else None)"
| "own_attr h UISelection a =
     (if a = ''GetElementIds'' \<or> a = ''SetElementIds'' \<or> a = ''ToString''
      then Some (Inr (BoundMethod a))
      else None)"
| "own_attr h v a = None"

text \<open>
  The built-ins \<^verbatim>\<open>getattr\<close>, \<^verbatim>\<open>hasattr\<close> and \<^verbatim>\<open>__setattr__\<close> on a value. A name
  that the value does not provide by itself is still found when it is one that every
  object has. \<^verbatim>\<open>hasattr\<close> is the one of Python 2 (the wrappers run under IronPython
  2.7): it is false whenever the access raises. A host object accepts an assignment to an
  attribute that holds a value other than a method and refuses every other one, as
  objects of the host's runtime do.
\<close>

definition py_getattr :: "host \<Rightarrow> pyval \<Rightarrow> string \<Rightarrow> error + pyval" where
  "py_getattr h v a =
     (case own_attr h v a of
        Some r \<Rightarrow> r
      | None \<Rightarrow> if a \<in> set object_names then Inr (Builtin v a) else Inl AttributeError)"

definition py_hasattr :: "host \<Rightarrow> pyval \<Rightarrow> string \<Rightarrow> bool" where
  "py_hasattr h v a = (case py_getattr h v a of Inl e \<Rightarrow> False | Inr x \<Rightarrow> True)"

fun py_setattr :: "host \<Rightarrow> pyval \<Rightarrow> string \<Rightarrow> pyval \<Rightarrow> error + host" where
  "py_setattr h (Obj c p) a x =
     (case objects h p a of
        Some (Value (BoundMethod m)) \<Rightarrow> Inl AttributeError
      | Some (Value y) \<Rightarrow> Inr (h\<lparr>objects := (objects h)(p := (objects h p)(a \<mapsto> Value x))\<rparr>)
      | _ \<Rightarrow> Inl AttributeError)"
| "py_setattr h v a x = Inl AttributeError"

text \<open>
  The calls \<^verbatim>\<open>obj.GetElementIds()\<close> and \<^verbatim>\<open>obj.ToString()\<close> on a value: the attribute
  is read and then called. The selection's \<^verbatim>\<open>GetElementIds\<close> answers with the host's
  selection; of the text that a \<^verbatim>\<open>ToString\<close> answers with, only that there is one is
  kept. Calling a value that is no method is a \<^verbatim>\<open>TypeError\<close>.
\<close>

definition call_GetElementIds :: "pyval \<Rightarrow> host \<Rightarrow> error + element_id list" where
  "call_GetElementIds obj h =
     (case py_getattr h obj ''GetElementIds'' of
        Inl e \<Rightarrow> Inl e
      | Inr (BoundMethod m) \<Rightarrow>
          if m = ''GetElementIds'' then Inr (GetElementIds h) else Inl TypeError
      | Inr v \<Rightarrow> Inl TypeError)"

definition call_ToString :: "pyval \<Rightarrow> host \<Rightarrow> error + unit" where
  "call_ToString obj h =
     (case py_getattr h obj ''ToString'' of
        Inl e \<Rightarrow> Inl e
      | Inr (BoundMethod m) \<Rightarrow> if m = ''ToString'' then Inr () else Inl TypeError
      | Inr v \<Rightarrow> Inl TypeError)"

text \<open>
  The subscript \<^verbatim>\<open>xs[i]\<close> of a Python list with an integer: positions from 0 up to the
  length, positions below 0 taken from the end, \<^verbatim>\<open>IndexError\<close> for any other integer.
\<close>

definition py_index :: "'a list \<Rightarrow> int \<Rightarrow> error + 'a" where
  "py_index xs i =
     (if 0 \<le> i \<and> i < int (length xs) then Inr (xs ! nat i)
      else if i < 0 \<and> - int (length xs) \<le> i then Inr (xs ! nat (int (length xs) + i))
      else Inl IndexError)"

section \<open>The generic wrapper (rpw/base.py)\<close>

text \<open>
  A call either returns a value, raises an error, or never returns: its outcome is
  \<open>Some (Inr v)\<close>, \<open>Some (Inl e)\<close> or \<open>None\<close>.
\<close>

type_synonym 'a outcome = "(error + 'a) option"

text \<open>
  A wrapper class declares the class of the objects it wraps as the class attribute
  \<^verbatim>\<open>_revit_object_class\<close> (\<^verbatim>\<open>BaseObjectWrapper\<close> itself declares none), its methods
  and its read-only properties, and it has the \<^verbatim>\<open>__repr__\<close> of \<^verbatim>\<open>BaseObjectWrapper\<close>
  or, as \<^verbatim>\<open>Selection\<close> does, the one that adds the length. A wrapper instance is its
  class and its instance dictionary \<^verbatim>\<open>__dict__\<close>.
\<close>

datatype repr_method = repr_of_BaseObjectWrapper | repr_of_Selection

record wclass =
  cname :: string
  revit_object_class :: "pytype option"
  cmethods :: "string list"
  cproperties :: "string list"
  crepr :: repr_method

record wrapper =
  wcls :: wclass
  wdict :: "string \<rightharpoonup> pyval"

definition BaseObjectWrapper_class :: wclass where
  "BaseObjectWrapper_class =
     \<lparr>cname = ''BaseObjectWrapper'', revit_object_class = None,
      cmethods = [''__init__'', ''ToString'', ''__repr__'', ''__getattr__'',
                  ''__setattr__'', ''unwrap''],
      cproperties = [], crepr = repr_of_BaseObjectWrapper\<rparr>"

definition Selection_class :: wclass where
  "Selection_class =
     \<lparr>cname = ''Selection'', revit_object_class = Some T_Selection,
      cmethods = [''__init__'', ''ToString'', ''__repr__'', ''__getattr__'',
                  ''__setattr__'', ''unwrap'', ''add'', ''clear'', ''__getitem__'',
                  ''__contains__'', ''__bool__'', ''__len__''],
      cproperties = [''element_ids'', ''elements''], crepr = repr_of_Selection\<rparr>"

text \<open>
  \<^verbatim>\<open>BaseObjectWrapper.__init__\<close>, run on a new instance of class \<open>C\<close>. Reading
  \<^verbatim>\<open>self.__class__._revit_object_class\<close> raises \<^verbatim>\<open>AttributeError\<close> when the class
  declares none. The name printed before the type error is not part of the model.
\<close>

definition BaseObjectWrapper_init :: "wclass \<Rightarrow> pyval \<Rightarrow> error + wrapper" where
  "BaseObjectWrapper_init C revit_object =
     (case revit_object_class C of
        None \<Rightarrow> Inl AttributeError
      | Some t \<Rightarrow>
          if \<not> isinstance revit_object t
          then Inl (RpwTypeError (PyType t) (PyType (type_of revit_object)))
          else Inr \<lparr>wcls = C, wdict = [''_revit_object'' \<mapsto> revit_object]\<rparr>)"

text \<open>
  The two \<^verbatim>\<open>__repr__\<close> methods. Each begins by reading \<^verbatim>\<open>self._revit_object\<close>
  (\<^verbatim>\<open>Selection.__repr__\<close> inside \<^verbatim>\<open>len(self)\<close>, that is inside \<^verbatim>\<open>self.element_ids\<close>),
  and that read may run \<^verbatim>\<open>__getattr__\<close>, which in turn formats the wrapper. So the
  methods are written here as what follows the read, with its outcome \<open>slot\<close> as an
  argument: \<^verbatim>\<open>BaseObjectWrapper.__repr__\<close> calls \<^verbatim>\<open>ToString\<close> on the handle and
  formats a text, \<^verbatim>\<open>Selection.__repr__\<close> first takes the length of the handle's
  \<^verbatim>\<open>GetElementIds()\<close>. The text is not kept: the result says that there is one, or which
  error was raised on the way.
\<close>

definition BaseObjectWrapper_repr :: "wrapper \<Rightarrow> host \<Rightarrow> error + pyval \<Rightarrow> error + unit" where
  "BaseObjectWrapper_repr self h slot =
     (case slot of
        Inl e \<Rightarrow> Inl e
      | Inr obj \<Rightarrow> call_ToString obj h)"

definition Selection_repr :: "wrapper \<Rightarrow> host \<Rightarrow> error + pyval \<Rightarrow> error + unit" where
  "Selection_repr self h slot =
     (case slot of
        Inl e \<Rightarrow> Inl e
      | Inr obj \<Rightarrow>
          (case call_GetElementIds obj h of
             Inl e \<Rightarrow> Inl e
           | Inr ids \<Rightarrow> BaseObjectWrapper_repr self h slot))"

text \<open>
  The statement \<^verbatim>\<open>raise RPW_Exception('...{}'.format(self))\<close>: formatting the wrapper
  runs the \<^verbatim>\<open>__repr__\<close> of its class, and an error raised there is what leaves the
  statement instead of the exception.
\<close>

definition raise_RPW_Exception :: "wrapper \<Rightarrow> host \<Rightarrow> error + pyval \<Rightarrow> error + pyval" where
  "raise_RPW_Exception self h slot =
     (case (case crepr (wcls self) of
              repr_of_BaseObjectWrapper \<Rightarrow> BaseObjectWrapper_repr self h slot
            | repr_of_Selection \<Rightarrow> Selection_repr self h slot) of
        Inl e \<Rightarrow> Inl e
      | Inr text \<Rightarrow> Inl RpwException)"

text \<open>
  \<^verbatim>\<open>BaseObjectWrapper.__getattr__\<close>. Python calls it only for a name found neither in
  the instance dictionary nor on the class. The \<^verbatim>\<open>try\<close> block spans both the read of
  the slot and the \<^verbatim>\<open>getattr\<close> on the handle, so \<^verbatim>\<open>except KeyError\<close> sees the errors of
  both. In the handler the wrapper is formatted. With the slot present the read of
  \<^verbatim>\<open>self._revit_object\<close> there finds it; with the slot missing that read runs
  \<^verbatim>\<open>__getattr__\<close> again, for the name \<^verbatim>\<open>_revit_object\<close>.
\<close>

partial_function (option) BaseObjectWrapper_getattr ::
  "wrapper \<Rightarrow> string \<Rightarrow> host \<Rightarrow> pyval outcome" where
  "BaseObjectWrapper_getattr self attr h =
     (case wdict self ''_revit_object'' of
        None \<Rightarrow>
          Option.bind (BaseObjectWrapper_getattr self ''_revit_object'' h)
            (\<lambda>slot. Some (raise_RPW_Exception self h slot))
      | Some obj \<Rightarrow>
          (case py_getattr h obj attr of
             Inl e \<Rightarrow>
               if is_KeyError e then Some (raise_RPW_Exception self h (Inr obj))
               else Some (Inl e)
           | Inr v \<Rightarrow> Some (Inr v)))"

text \<open>
  A name is defined on the wrapper itself when its class declares it, when its instance
  dictionary holds it, or when it is one of the names that every instance of a Python
  class has; for every other name an attribute read runs \<^verbatim>\<open>__getattr__\<close>.
\<close>

definition instance_names :: "string list" where
  "instance_names = object_names @ [''__dict__'', ''__module__'', ''__weakref__'']"

definition defined_on_wrapper :: "wrapper \<Rightarrow> string \<Rightarrow> bool" where
  "defined_on_wrapper self attr =
     (attr \<in> set (cmethods (wcls self)) \<or> attr \<in> set (cproperties (wcls self))
      \<or> attr \<in> set instance_names
      \<or> (attr = ''_revit_object_class'' \<and> revit_object_class (wcls self) \<noteq> None)
      \<or> wdict self attr \<noteq> None)"

text \<open>
  The expression \<^verbatim>\<open>self._revit_object\<close>: no class declares that name, so the read is
  the instance dictionary first and \<^verbatim>\<open>__getattr__\<close> otherwise.
\<close>

definition self_revit_object :: "wrapper \<Rightarrow> host \<Rightarrow> pyval outcome" where
  "self_revit_object self h =
     (case wdict self ''_revit_object'' of
        Some obj \<Rightarrow> Some (Inr obj)
      | None \<Rightarrow> BaseObjectWrapper_getattr self ''_revit_object'' h)"

text \<open>
  \<^verbatim>\<open>object.__setattr__(self, attr, value)\<close>: a read-only property of the class and the
  slot \<^verbatim>\<open>__weakref__\<close> refuse the assignment, \<^verbatim>\<open>__dict__\<close> and \<^verbatim>\<open>__class__\<close> refuse a
  value that is no dictionary and no class (the values here are neither), any other name
  is stored in the instance dictionary.
\<close>

definition object_setattr :: "wrapper \<Rightarrow> string \<Rightarrow> pyval \<Rightarrow> error + wrapper" where
  "object_setattr self attr v =
     (if attr \<in> set (cproperties (wcls self)) \<or> attr = ''__weakref__'' then Inl AttributeError
      else if attr = ''__dict__'' \<or> attr = ''__class__'' then Inl TypeError
      else Inr (self\<lparr>wdict := (wdict self)(attr \<mapsto> v)\<rparr>))"

text \<open>\<^verbatim>\<open>BaseObjectWrapper.__setattr__\<close>: returns the wrapper and the host after the call.\<close>

definition BaseObjectWrapper_setattr ::
  "wrapper \<Rightarrow> string \<Rightarrow> pyval \<Rightarrow> host \<Rightarrow> (wrapper \<times> host) outcome" where
  "BaseObjectWrapper_setattr self attr v h =
     (case self_revit_object self h of
        None \<Rightarrow> None
      | Some (Inl e) \<Rightarrow> Some (Inl e)
      | Some (Inr obj) \<Rightarrow>
          if py_hasattr h obj attr
          then (case py_setattr h obj attr v of
                  Inl e \<Rightarrow> Some (Inl e)
                | Inr h' \<Rightarrow> Some (Inr (self, h')))
          else (case object_setattr self attr v of
                  Inl e \<Rightarrow> Some (Inl e)
                | Inr self' \<Rightarrow> Some (Inr (self', h))))"

text \<open>\<^verbatim>\<open>BaseObjectWrapper.unwrap\<close>.\<close>

definition unwrap :: "wrapper \<Rightarrow> host \<Rightarrow> pyval outcome" where
  "unwrap self h = self_revit_object self h"

section \<open>The selection wrapper (rpw/ui/selection.py)\<close>

text \<open>
  Lines 61 to 70 of \<^verbatim>\<open>Selection.add\<close>: the argument, put in a list when it is not
  one, becomes a list of identifiers when all its items are identifiers, all are elements
  or all are integers; otherwise the type error is built from \<^verbatim>\<open>list\<close> and the type of
  the item at index 0. An empty list passes the first test.
\<close>

definition add_element_ids :: "pyval \<Rightarrow> error + element_id list" where
  "add_element_ids elements_or_ids =
     (let xs = (case elements_or_ids of PyList l \<Rightarrow> l | v \<Rightarrow> [v]) in
      if list_all (\<lambda>e. isinstance e T_ElementId) xs then Inr [n. ElementId n \<leftarrow> xs]
      else if list_all (\<lambda>e. isinstance e T_Element) xs then Inr [n. Element n \<leftarrow> xs]
      else if list_all (\<lambda>e. isinstance e T_int) xs then Inr [n. PyInt n \<leftarrow> xs]
      else (case xs of
              [] \<Rightarrow> Inl IndexError
            | x # rest \<Rightarrow> Inl (RpwTypeError (PyType T_list) (PyType (type_of x)))))"

text \<open>
  \<^verbatim>\<open>Selection.add\<close>: reads the host's selection, puts the new identifiers in front and
  hands the whole list back to the host. It uses the global \<^verbatim>\<open>uidoc.Selection\<close>, not
  the wrapper's own slot.
\<close>

definition Selection_add :: "wrapper \<Rightarrow> pyval \<Rightarrow> host \<Rightarrow> error + host" where
  "Selection_add self elements_or_ids h =
     (case add_element_ids elements_or_ids of
        Inl e \<Rightarrow> Inl e
      | Inr element_ids \<Rightarrow>
          (let current_selection = GetElementIds h;
               new_selection = element_ids @ current_selection
           in Inr (SetElementIds new_selection h)))"

text \<open>\<^verbatim>\<open>Selection.__init__\<close>; \<^verbatim>\<open>Selection()\<close> passes \<^verbatim>\<open>None\<close>.\<close>

definition Selection_init :: "pyval \<Rightarrow> host \<Rightarrow> error + wrapper \<times> host" where
  "Selection_init elements h =
     (case BaseObjectWrapper_init Selection_class UISelection of
        Inl e \<Rightarrow> Inl e
      | Inr self \<Rightarrow>
          if truthy elements
          then (case Selection_add self elements h of
                  Inl e \<Rightarrow> Inl e
                | Inr h' \<Rightarrow> Inr (self, h'))
          else Inr (self, h))"

text \<open>The properties \<^verbatim>\<open>element_ids\<close> and \<^verbatim>\<open>elements\<close>.\<close>

definition Selection_element_ids :: "wrapper \<Rightarrow> host \<Rightarrow> element_id list outcome" where
  "Selection_element_ids self h =
     (case self_revit_object self h of
        None \<Rightarrow> None
      | Some (Inl e) \<Rightarrow> Some (Inl e)
      | Some (Inr obj) \<Rightarrow> Some (call_GetElementIds obj h))"

definition Selection_elements :: "wrapper \<Rightarrow> host \<Rightarrow> pyval list outcome" where
  "Selection_elements self h =
     (case Selection_element_ids self h of
        None \<Rightarrow> None
      | Some (Inl e) \<Rightarrow> Some (Inl e)
      | Some (Inr ids) \<Rightarrow> Some (Inr (map (doc_GetElement h) ids)))"

text \<open>\<^verbatim>\<open>Selection.clear\<close>.\<close>

definition Selection_clear :: "wrapper \<Rightarrow> host \<Rightarrow> host" where
  "Selection_clear self h = SetElementIds [] h"

text \<open>\<^verbatim>\<open>Selection.__getitem__\<close>, for an integer index.\<close>

definition Selection_getitem :: "wrapper \<Rightarrow> int \<Rightarrow> host \<Rightarrow> pyval outcome" where
  "Selection_getitem self index h =
     (case Selection_elements self h of
        None \<Rightarrow> None
      | Some (Inl e) \<Rightarrow> Some (Inl e)
      | Some (Inr els) \<Rightarrow> Some (py_index els index))"

text \<open>
  \<^verbatim>\<open>Selection.__contains__\<close>. The coercion \<^verbatim>\<open>to_element_ids\<close> comes from
  \<^verbatim>\<open>rpw.utils.coerce\<close> and is a parameter here.
\<close>

definition Selection_contains ::
  "(pyval \<Rightarrow> error + element_id list) \<Rightarrow> wrapper \<Rightarrow> pyval \<Rightarrow> host \<Rightarrow> bool outcome" where
  "Selection_contains coerce self element_reference h =
     (case coerce element_reference of
        Inl e \<Rightarrow> Some (Inl e)
      | Inr element_ids \<Rightarrow>
          (case element_ids of
             [element_id] \<Rightarrow>
               (case Selection_element_ids self h of
                  None \<Rightarrow> None
                | Some (Inl e) \<Rightarrow> Some (Inl e)
                | Some (Inr ids) \<Rightarrow> Some (Inr (list_ex (\<lambda>e. e = element_id) ids)))
           | _ \<Rightarrow>
               Some (Inl (RpwTypeError (PyStr ''element_reference'')
                            (PyType (type_of element_reference))))))"

text \<open>
  \<^verbatim>\<open>Selection.__bool__\<close> and \<^verbatim>\<open>Selection.__len__\<close>. Python 3 takes the truth value of
  a selection from the first; Python 2 knows no \<^verbatim>\<open>__bool__\<close> and takes it from the
  second, as "the length is not 0".
\<close>

definition Selection_bool :: "wrapper \<Rightarrow> host \<Rightarrow> bool outcome" where
  "Selection_bool self h =
     (case Selection_elements self h of
        None \<Rightarrow> None
      | Some (Inl e) \<Rightarrow> Some (Inl e)
      | Some (Inr els) \<Rightarrow> Some (Inr (els \<noteq> [])))"

definition Selection_len :: "wrapper \<Rightarrow> host \<Rightarrow> nat outcome" where
  "Selection_len self h =
     (case Selection_element_ids self h of
        None \<Rightarrow> None
      | Some (Inl e) \<Rightarrow> Some (Inl e)
      | Some (Inr ids) \<Rightarrow> Some (Inr (length ids)))"

text \<open>A wrapper whose slot holds the host's selection object, as \<^verbatim>\<open>Selection.__init__\<close> leaves it.\<close>

definition bound_to_selection :: "wrapper \<Rightarrow> bool" where
  "bound_to_selection self = (wdict self ''_revit_object'' = Some UISelection)"

section \<open>Parts the sources do not contain\<close>

text \<open>
  Modelled from the spec: the coercion of one reference to an identifier, the step of
  \<^verbatim>\<open>to_element_ids\<close> of \<^verbatim>\<open>rpw.utils.coerce\<close>, which \<^verbatim>\<open>Selection.__contains__\<close>
  calls and which is not among the sources. The specification says that a reference is
  normalized to identifiers, that raw identifier values, native element references
  (mapped to their identifier) and identifier objects are accepted and produce
  identifiers uniformly, and that an input of another type is a type mismatch carrying
  the expected and the received type.
\<close>

fun to_element_id :: "pyval \<Rightarrow> error + element_id" where
  "to_element_id (ElementId n) = Inr n"
| "to_element_id (Element n) = Inr n"
| "to_element_id (PyInt n) = Inr n"
| "to_element_id v = Inl (RpwTypeError (PyStr ''element reference'') (PyType (type_of v)))"

fun collect :: "(error + 'a) list \<Rightarrow> error + 'a list" where
  "collect [] = Inr []"
| "collect (r # rs) =
     (case r of
        Inl e \<Rightarrow> Inl e
      | Inr x \<Rightarrow> (case collect rs of Inl e \<Rightarrow> Inl e | Inr xs \<Rightarrow> Inr (x # xs)))"

text \<open>
  Modelled from the spec: \<^verbatim>\<open>to_element_ids\<close> itself, which coerces a single reference or
  every item of a list of references, in order, and fails where one of them fails.
\<close>

definition to_element_ids :: "pyval \<Rightarrow> error + element_id list" where
  "to_element_ids element_references =
     collect (map to_element_id
       (case element_references of PyList l \<Rightarrow> l | v \<Rightarrow> [v]))"

text \<open>
  The first offending item of a sequence passed to \<^verbatim>\<open>add\<close>, in the words of the
  specification: the first item that is not an identifier, an element or an integer, and,
  when every item is one of the three, the first whose type differs from that of the item
  at index 0.
\<close>

definition acceptable :: "pyval \<Rightarrow> bool" where
  "acceptable v = (type_of v = T_ElementId \<or> type_of v = T_Element \<or> type_of v = T_int)"

definition first_offending :: "pyval list \<Rightarrow> pyval option" where
  "first_offending xs =
     (case find (\<lambda>v. \<not> acceptable v) xs of
        Some v \<Rightarrow> Some v
      | None \<Rightarrow> (case xs of [] \<Rightarrow> None | x # rest \<Rightarrow> find (\<lambda>v. type_of v \<noteq> type_of x) rest))"

section \<open>Sample objects\<close>

text \<open>
  The wrapper that \<^verbatim>\<open>Selection.__init__\<close> builds, a wrapper class for walls, and a host
  with two walls, two selected identifiers and a document in which identifier 7 resolves
  to nothing. The \<^verbatim>\<open>Parameters\<close> property of both walls raises \<^verbatim>\<open>KeyError\<close>. The wall
  at address 0 has a \<^verbatim>\<open>ToString\<close> method, as every object of the host's runtime has;
  the one at address 2 stands for a handle without it.
\<close>

definition selection_wrapper :: wrapper where
  "selection_wrapper = \<lparr>wcls = Selection_class, wdict = [''_revit_object'' \<mapsto> UISelection]\<rparr>"

definition Wall_class :: wclass where
  "Wall_class =
     \<lparr>cname = ''Wall'', revit_object_class = Some (T_Host ''Wall''),
      cmethods = cmethods BaseObjectWrapper_class, cproperties = [],
      crepr = repr_of_BaseObjectWrapper\<rparr>"

definition wall_wrapper :: wrapper where
  "wall_wrapper = \<lparr>wcls = Wall_class, wdict = [''_revit_object'' \<mapsto> Obj ''Wall'' 0]\<rparr>"

definition bare_wall_wrapper :: wrapper where
  "bare_wall_wrapper = \<lparr>wcls = Wall_class, wdict = [''_revit_object'' \<mapsto> Obj ''Wall'' 2]\<rparr>"

definition sample_host :: host where
  "sample_host =
     \<lparr>objects = (\<lambda>p. if p = 0
                      then [''Name'' \<mapsto> Value (PyStr ''W1''),
                            ''Parameters'' \<mapsto> Raising KeyError,
                            ''ToString'' \<mapsto> Value (BoundMethod ''ToString'')]
                      else if p = 2 then [''Parameters'' \<mapsto> Raising KeyError]
                      else Map.empty),
      selected = [2, 7],
      doc_GetElement = (\<lambda>n. if n = 7 then PyNone else Element n)\<rparr>"

section \<open>Facts shared by the proofs\<close>

text \<open>
  \<^verbatim>\<open>__getattr__\<close> returns or raises only on a wrapper that has its slot. On a wrapper
  without it, as a subclass that does not run \<^verbatim>\<open>BaseObjectWrapper.__init__\<close> leaves it,
  the call never returns: formatting the message of the exception asks for the slot
  again.
\<close>

lemma getattr_returns_slot:
  "BaseObjectWrapper_getattr self attr h = Some r \<Longrightarrow> wdict self ''_revit_object'' \<noteq> None"
  by (erule BaseObjectWrapper_getattr.raw_induct [rotated])
    (fastforce split: option.splits Option.bind_splits)

lemma getattr_without_slot_never_returns:
  "wdict self ''_revit_object'' = None \<Longrightarrow> BaseObjectWrapper_getattr self attr h = None"
  using getattr_returns_slot [of self attr h]
  by (cases "BaseObjectWrapper_getattr self attr h") auto

lemma getattr_with_slot:
  "wdict self ''_revit_object'' = Some obj \<Longrightarrow>
   BaseObjectWrapper_getattr self attr h =
     (case py_getattr h obj attr of
        Inl e \<Rightarrow>
          if is_KeyError e then Some (raise_RPW_Exception self h (Inr obj)) else Some (Inl e)
      | Inr v \<Rightarrow> Some (Inr v))"
  by (simp add: BaseObjectWrapper_getattr.simps)

lemma self_revit_object_with_slot:
  "wdict self ''_revit_object'' = Some obj \<Longrightarrow> self_revit_object self h = Some (Inr obj)"
  by (simp add: self_revit_object_def)

lemma call_GetElementIds_UISelection: "call_GetElementIds UISelection h = Inr (selected h)"
  by (simp add: call_GetElementIds_def py_getattr_def GetElementIds_def)

lemma bound_element_ids:
  "bound_to_selection self \<Longrightarrow> Selection_element_ids self h = Some (Inr (selected h))"
  by (simp add: bound_to_selection_def Selection_element_ids_def self_revit_object_with_slot
      call_GetElementIds_UISelection)

lemma bound_selection_wrapper: "bound_to_selection selection_wrapper"
  by (simp add: bound_to_selection_def selection_wrapper_def)

lemma init_selection_wrapper:
  "BaseObjectWrapper_init Selection_class UISelection = Inr selection_wrapper"
  by (simp add: BaseObjectWrapper_init_def Selection_class_def isinstance_def
      selection_wrapper_def)

lemma init_wall_wrapper:
  "BaseObjectWrapper_init Wall_class (Obj ''Wall'' 0) = Inr wall_wrapper"
  by (simp add: BaseObjectWrapper_init_def Wall_class_def isinstance_def wall_wrapper_def)

lemma init_slot:
  "BaseObjectWrapper_init C obj = Inr w \<Longrightarrow> w = \<lparr>wcls = C, wdict = [''_revit_object'' \<mapsto> obj]\<rparr>"
  by (auto simp: BaseObjectWrapper_init_def split: option.splits if_splits)

lemma selected_sample_host: "selected sample_host = [2, 7]"
  by (simp add: sample_host_def)

lemma ids_of_ElementIds: "[n. ElementId n \<leftarrow> map ElementId ns] = ns"
  by (induction ns) simp_all

lemma ids_of_Elements: "[n. Element n \<leftarrow> map Element ns] = ns"
  by (induction ns) simp_all

lemma ids_of_PyInts: "[n. PyInt n \<leftarrow> map PyInt ns] = ns"
  by (induction ns) simp_all

lemma add_element_ids_ElementIds: "add_element_ids (PyList (map ElementId ns)) = Inr ns"
  by (simp add: add_element_ids_def ids_of_ElementIds list_all_iff isinstance_def del: map_map)

lemma add_element_ids_Elements: "add_element_ids (PyList (map Element ns)) = Inr ns"
  using ids_of_Elements [of ns]
  by (cases ns) (simp_all add: add_element_ids_def list_all_iff isinstance_def del: map_map)

lemma add_element_ids_PyInts: "add_element_ids (PyList (map PyInt ns)) = Inr ns"
  using ids_of_PyInts [of ns]
  by (cases ns) (simp_all add: add_element_ids_def list_all_iff isinstance_def del: map_map)

lemma contains_single:
  "bound_to_selection self \<Longrightarrow> coerce r = Inr [i] \<Longrightarrow>
   Selection_contains coerce self r h = Some (Inr (i \<in> set (selected h)))"
  by (simp add: Selection_contains_def bound_element_ids list_ex_iff)

lemma contains_not_single:
  "coerce r = Inr ids \<Longrightarrow> length ids \<noteq> 1 \<Longrightarrow>
   Selection_contains coerce self r h
     = Some (Inl (RpwTypeError (PyStr ''element_reference'') (PyType (type_of r))))"
  by (cases ids; cases "tl ids") (simp_all add: Selection_contains_def)

lemma init_single_element:
  "Selection_init (PyList [Element n]) h
     = Inr (selection_wrapper, h\<lparr>selected := n # selected h\<rparr>)"
  by (simp add: Selection_init_def init_selection_wrapper Selection_add_def add_element_ids_def
      isinstance_def GetElementIds_def SetElementIds_def)

lemma to_element_ids_Element: "to_element_ids (Element m) = Inr [m]"
  by (simp add: to_element_ids_def)

section \<open>The claims\<close>

subsection \<open>Selection.add\<close>

text \<open>
  C1: when \<^verbatim>\<open>add\<close> accepts its argument, the identifiers it was normalized to are put,
  in their order and with nothing removed, in front of the host's current selection, the
  host's selection is replaced by that list, and \<^verbatim>\<open>element_ids\<close> read afterwards on a
  wrapper bound to the selection returns the new identifiers followed by the earlier
  contents. A list of identifiers, of elements or of integers is normalized to the
  identifiers it names.
\<close>

theorem add_prepends_new_first:
  assumes "bound_to_selection self" and "add_element_ids arg = Inr ids"
  shows "Selection_add self arg h = Inr (h\<lparr>selected := ids @ selected h\<rparr>)
       \<and> Selection_element_ids self (h\<lparr>selected := ids @ selected h\<rparr>)
            = Some (Inr (ids @ selected h))
       \<and> add_element_ids (PyList (map ElementId ns)) = Inr ns
       \<and> add_element_ids (PyList (map Element ns)) = Inr ns
       \<and> add_element_ids (PyList (map PyInt ns)) = Inr ns"
  using assms
  by (simp add: Selection_add_def GetElementIds_def SetElementIds_def bound_element_ids
      add_element_ids_ElementIds add_element_ids_Elements add_element_ids_PyInts)

theorem add_prepends_new_first_witness:
  "bound_to_selection selection_wrapper
   \<and> add_element_ids (PyList [ElementId 7, ElementId 9]) = Inr [7, 9]
   \<and> Selection_add selection_wrapper (PyList [ElementId 7, ElementId 9]) sample_host
        = Inr (sample_host\<lparr>selected := [7, 9, 2, 7]\<rparr>)
   \<and> Selection_element_ids selection_wrapper (sample_host\<lparr>selected := [7, 9, 2, 7]\<rparr>)
        = Some (Inr [7, 9, 2, 7])"
proof -
  have a: "add_element_ids (PyList [ElementId 7, ElementId 9]) = Inr [7, 9]"
    by (simp add: add_element_ids_def isinstance_def)
  show ?thesis
    using add_prepends_new_first [OF bound_selection_wrapper a, of sample_host] a
      selected_sample_host bound_selection_wrapper
    by simp
qed

text \<open>
  C2, as amended: a non-empty sequence that is neither all identifiers, nor all elements,
  nor all integers is refused with the type error built from \<^verbatim>\<open>list\<close> and the type of
  the item at index 0 of the sequence, whether or not that item is the one that offends.
\<close>

theorem add_mixed_names_first_item:
  assumes "\<not> list_all (\<lambda>e. isinstance e T_ElementId) (x # rest)"
    and "\<not> list_all (\<lambda>e. isinstance e T_Element) (x # rest)"
    and "\<not> list_all (\<lambda>e. isinstance e T_int) (x # rest)"
  shows "Selection_add self (PyList (x # rest)) h
           = Inl (RpwTypeError (PyType T_list) (PyType (type_of x)))"
  using assms by (simp add: Selection_add_def add_element_ids_def Let_def)

theorem add_mixed_names_first_item_witness:
  "\<not> list_all (\<lambda>e. isinstance e T_ElementId) [ElementId 1, Element 2]
   \<and> \<not> list_all (\<lambda>e. isinstance e T_Element) [ElementId 1, Element 2]
   \<and> \<not> list_all (\<lambda>e. isinstance e T_int) [ElementId 1, Element 2]
   \<and> Selection_add selection_wrapper (PyList [ElementId 1, Element 2]) sample_host
        = Inl (RpwTypeError (PyType T_list) (PyType T_ElementId))"
  using add_mixed_names_first_item [of "ElementId 1" "[Element 2]" selection_wrapper sample_host]
  by (simp add: isinstance_def)

text \<open>
  C2 as stated fails: in an identifier followed by a string the string is the first
  offending item, and the error names the type of the identifier.
\<close>

theorem add_first_offending_counterexample:
  "first_offending [ElementId 1, PyStr ''wall''] = Some (PyStr ''wall'')
   \<and> type_of (PyStr ''wall'') = T_str
   \<and> Selection_add selection_wrapper (PyList [ElementId 1, PyStr ''wall'']) sample_host
        = Inl (RpwTypeError (PyType T_list) (PyType T_ElementId))
   \<and> Selection_add selection_wrapper (PyList [ElementId 1, PyStr ''wall'']) sample_host
        \<noteq> Inl (RpwTypeError (PyType T_list) (PyType T_str))"
  by (simp add: first_offending_def acceptable_def Selection_add_def add_element_ids_def
      isinstance_def)

subsection \<open>Selection.__contains__, __getitem__, clear and __init__\<close>

text \<open>
  C7, as amended: on a wrapper bound to the selection, \<^verbatim>\<open>__contains__\<close> passes on an
  error of the normalization, fails with the type error (built from the text
  \<^verbatim>\<open>element_reference\<close> and the type of the reference) when the normalization yields no
  or several identifiers, and otherwise answers whether the single identifier is among
  \<^verbatim>\<open>element_ids\<close>. \<^verbatim>\<open>Selection([e])\<close> puts the identifier of \<open>e\<close> in front of the
  host's earlier selection, so \<open>e\<close> is contained afterwards, and an element with another
  identifier is not contained provided its identifier was not selected before.
\<close>

theorem contains_single_identifier:
  assumes "bound_to_selection self"
  shows "(coerce r = Inl e \<longrightarrow> Selection_contains coerce self r h = Some (Inl e))
       \<and> (coerce r = Inr ids \<and> length ids \<noteq> 1 \<longrightarrow>
            Selection_contains coerce self r h
              = Some (Inl (RpwTypeError (PyStr ''element_reference'') (PyType (type_of r)))))
       \<and> (coerce r = Inr [i] \<longrightarrow>
            Selection_contains coerce self r h = Some (Inr (i \<in> set (selected h))))
       \<and> Selection_init (PyList [Element n]) h
            = Inr (selection_wrapper, h\<lparr>selected := n # selected h\<rparr>)
       \<and> Selection_contains to_element_ids selection_wrapper (Element n)
            (h\<lparr>selected := n # selected h\<rparr>) = Some (Inr True)
       \<and> (m \<noteq> n \<and> m \<notin> set (selected h) \<longrightarrow>
            Selection_contains to_element_ids selection_wrapper (Element m)
              (h\<lparr>selected := n # selected h\<rparr>) = Some (Inr False))"
proof -
  have a: "coerce r = Inl e \<Longrightarrow> Selection_contains coerce self r h = Some (Inl e)"
    by (simp add: Selection_contains_def)
  have b: "Selection_contains to_element_ids selection_wrapper (Element k)
             (h\<lparr>selected := n # selected h\<rparr>) = Some (Inr (k = n \<or> k \<in> set (selected h)))"
    for k
    using contains_single [of selection_wrapper to_element_ids "Element k" k
        "h\<lparr>selected := n # selected h\<rparr>"]
    by (simp add: bound_selection_wrapper to_element_ids_Element)
  show ?thesis
    using a contains_not_single [of coerce r ids self h]
      contains_single [of self coerce r i h] assms init_single_element [of n h] b [of n] b [of m]
    by simp
qed

theorem contains_single_identifier_witness:
  "bound_to_selection selection_wrapper
   \<and> to_element_ids (PyList []) = Inr []
   \<and> Selection_contains to_element_ids selection_wrapper (PyList []) sample_host
        = Some (Inl (RpwTypeError (PyStr ''element_reference'') (PyType T_list)))
   \<and> to_element_ids (PyInt 7) = Inr [7]
   \<and> Selection_contains to_element_ids selection_wrapper (PyInt 7) sample_host
        = Some (Inr True)
   \<and> Selection_init (PyList [Element 1]) sample_host
        = Inr (selection_wrapper, sample_host\<lparr>selected := [1, 2, 7]\<rparr>)
   \<and> Selection_contains to_element_ids selection_wrapper (Element 1)
        (sample_host\<lparr>selected := [1, 2, 7]\<rparr>) = Some (Inr True)
   \<and> Selection_contains to_element_ids selection_wrapper (Element 3)
        (sample_host\<lparr>selected := [1, 2, 7]\<rparr>) = Some (Inr False)"
proof -
  have e: "to_element_ids (PyList []) = Inr []"
    by (simp add: to_element_ids_def)
  have p: "to_element_ids (PyInt 7) = Inr [7]"
    by (simp add: to_element_ids_def)
  show ?thesis
    using bound_selection_wrapper selected_sample_host e p
      contains_single_identifier [OF bound_selection_wrapper,
        of to_element_ids "PyList []" KeyError sample_host "[]" 0 1 3]
      contains_single_identifier [OF bound_selection_wrapper,
        of to_element_ids "PyInt 7" KeyError sample_host "[]" 7 1 3]
    by auto
qed

text \<open>
  C7 as stated fails: with identifier 7 already selected, the element 7 is contained in
  \<^verbatim>\<open>Selection([e])\<close> for the distinct element \<open>e\<close> of identifier 1.
\<close>

theorem contains_distinct_element_counterexample:
  "Element 7 \<noteq> Element 1
   \<and> Selection_init (PyList [Element 1]) sample_host
        = Inr (selection_wrapper, sample_host\<lparr>selected := [1, 2, 7]\<rparr>)
   \<and> Selection_contains to_element_ids selection_wrapper (Element 7)
        (sample_host\<lparr>selected := [1, 2, 7]\<rparr>) = Some (Inr True)"
proof -
  have "Selection_contains to_element_ids selection_wrapper (Element 7)
          (sample_host\<lparr>selected := [1, 2, 7]\<rparr>) = Some (Inr True)"
    using contains_single [of selection_wrapper to_element_ids "Element 7" 7
        "sample_host\<lparr>selected := [1, 2, 7]\<rparr>"]
    by (simp add: bound_selection_wrapper to_element_ids_Element)
  then show ?thesis
    using init_single_element [of 1 sample_host] selected_sample_host by simp
qed

text \<open>
  C8: on a wrapper bound to the selection, \<^verbatim>\<open>__getitem__\<close> with an integer index returns
  the element that the document resolves the identifier at that position to (a negative
  index counting from the end, as Python lists do), and outside the bounds the result is
  Python's \<^verbatim>\<open>IndexError\<close>, not a value.
\<close>

theorem getitem_indexes_elements:
  assumes "bound_to_selection self"
  shows "Selection_getitem self i h =
           Some (if 0 \<le> i \<and> i < int (length (selected h))
                 then Inr (doc_GetElement h (selected h ! nat i))
                 else if - int (length (selected h)) \<le> i \<and> i < 0
                 then Inr (doc_GetElement h (selected h ! nat (int (length (selected h)) + i)))
                 else Inl IndexError)"
  using assms
  by (auto simp: Selection_getitem_def Selection_elements_def bound_element_ids py_index_def)

theorem getitem_indexes_elements_witness:
  "bound_to_selection selection_wrapper
   \<and> Selection_getitem selection_wrapper 0 sample_host = Some (Inr (Element 2))
   \<and> Selection_getitem selection_wrapper (- 1) sample_host = Some (Inr PyNone)
   \<and> Selection_getitem selection_wrapper 2 sample_host = Some (Inl IndexError)
   \<and> Selection_getitem selection_wrapper (- 3) sample_host = Some (Inl IndexError)"
  using getitem_indexes_elements [OF bound_selection_wrapper, of 0 sample_host]
    getitem_indexes_elements [OF bound_selection_wrapper, of "- 1" sample_host]
    getitem_indexes_elements [OF bound_selection_wrapper, of 2 sample_host]
    getitem_indexes_elements [OF bound_selection_wrapper, of "- 3" sample_host]
    bound_selection_wrapper
  by (simp add: sample_host_def)

text \<open>
  C9: whatever the host's selection was, \<^verbatim>\<open>clear\<close> replaces it with the empty list, and
  on a wrapper bound to the selection \<^verbatim>\<open>__len__\<close> then returns 0 and \<^verbatim>\<open>__bool__\<close>
  false.
\<close>

theorem clear_empties_selection:
  assumes "bound_to_selection self"
  shows "Selection_clear self h = h\<lparr>selected := []\<rparr>
       \<and> Selection_element_ids self (Selection_clear self h) = Some (Inr [])
       \<and> Selection_len self (Selection_clear self h) = Some (Inr 0)
       \<and> Selection_bool self (Selection_clear self h) = Some (Inr False)"
  using assms
  by (simp add: Selection_clear_def SetElementIds_def Selection_len_def Selection_bool_def
      Selection_elements_def bound_element_ids)

theorem clear_empties_selection_witness:
  "bound_to_selection selection_wrapper
   \<and> selected sample_host = [2, 7]
   \<and> Selection_clear selection_wrapper sample_host = sample_host\<lparr>selected := []\<rparr>
   \<and> Selection_len selection_wrapper (Selection_clear selection_wrapper sample_host)
        = Some (Inr 0)
   \<and> Selection_bool selection_wrapper (Selection_clear selection_wrapper sample_host)
        = Some (Inr False)"
  using clear_empties_selection [OF bound_selection_wrapper, of sample_host]
    bound_selection_wrapper selected_sample_host
  by auto

text \<open>
  C10: \<^verbatim>\<open>Selection([])\<close> and \<^verbatim>\<open>Selection(0)\<close> return the wrapper without an error and
  leave the host as it was, although \<^verbatim>\<open>add(0)\<close> itself would select identifier 0.
\<close>

theorem init_falsy_skips_merge:
  "Selection_init (PyList []) h = Inr (selection_wrapper, h)
   \<and> Selection_init (PyInt 0) h = Inr (selection_wrapper, h)
   \<and> Selection_add selection_wrapper (PyInt 0) h = Inr (h\<lparr>selected := 0 # selected h\<rparr>)"
  by (simp add: Selection_init_def init_selection_wrapper Selection_add_def add_element_ids_def
      isinstance_def GetElementIds_def SetElementIds_def)

subsection \<open>The generic wrapper\<close>

text \<open>
  C5: when the class declares an expected type and the handle is an instance of it, the
  construction succeeds, the wrapper holds the handle in its slot, and \<^verbatim>\<open>unwrap\<close>
  returns that very handle (for a host object, the same reference).
\<close>

theorem wrap_unwrap_identity:
  assumes "revit_object_class C = Some t" and "isinstance obj t"
  shows "BaseObjectWrapper_init C obj = Inr \<lparr>wcls = C, wdict = [''_revit_object'' \<mapsto> obj]\<rparr>
       \<and> unwrap \<lparr>wcls = C, wdict = [''_revit_object'' \<mapsto> obj]\<rparr> h = Some (Inr obj)"
  using assms
  by (simp add: BaseObjectWrapper_init_def unwrap_def self_revit_object_def)

theorem wrap_unwrap_identity_witness:
  "revit_object_class Wall_class = Some (T_Host ''Wall'')
   \<and> isinstance (Obj ''Wall'' 0) (T_Host ''Wall'')
   \<and> BaseObjectWrapper_init Wall_class (Obj ''Wall'' 0) = Inr wall_wrapper
   \<and> unwrap wall_wrapper sample_host = Some (Inr (Obj ''Wall'' 0))"
  using wrap_unwrap_identity [of Wall_class "T_Host ''Wall''" "Obj ''Wall'' 0" sample_host]
  by (simp add: Wall_class_def isinstance_def wall_wrapper_def)

text \<open>
  C6: when the handle is not an instance of the declared expected type, the construction
  fails with the type error that carries the expected type and the type received, and so
  returns no wrapper.
\<close>

theorem wrap_type_mismatch:
  assumes "revit_object_class C = Some t" and "\<not> isinstance obj t"
  shows "BaseObjectWrapper_init C obj = Inl (RpwTypeError (PyType t) (PyType (type_of obj)))"
  using assms by (simp add: BaseObjectWrapper_init_def)

theorem wrap_type_mismatch_witness:
  "revit_object_class Wall_class = Some (T_Host ''Wall'')
   \<and> \<not> isinstance (Element 5) (T_Host ''Wall'')
   \<and> BaseObjectWrapper_init Wall_class (Element 5)
       = Inl (RpwTypeError (PyType (T_Host ''Wall'')) (PyType T_Element))"
  using wrap_type_mismatch [of Wall_class "T_Host ''Wall''" "Element 5"]
  by (simp add: Wall_class_def isinstance_def)

text \<open>
  C4, as amended: for a wrapper constructed around a handle, reading a name that is not
  defined on the wrapper and that the handle has returns the handle's value. Assigning to
  a name that the handle has is the handle's own assignment and leaves the wrapper as it
  was: its error is the result where the handle refuses, and for an attribute of a host
  object that holds a value other than a method the handle holds the new value
  afterwards. Assigning to a
  name that the handle does not have stores the value in the wrapper's dictionary and
  leaves the host as it was, unless the wrapper's class guards the name: a read-only
  property of the class refuses with \<^verbatim>\<open>AttributeError\<close>.
\<close>

theorem attribute_delegation:
  assumes "BaseObjectWrapper_init C obj = Inr w"
  shows "(py_getattr h obj a = Inr x \<and> \<not> defined_on_wrapper w a \<longrightarrow>
            BaseObjectWrapper_getattr w a h = Some (Inr x))
       \<and> (py_hasattr h obj a \<longrightarrow>
            BaseObjectWrapper_setattr w a v h
              = Some (case py_setattr h obj a v of Inl e \<Rightarrow> Inl e | Inr h' \<Rightarrow> Inr (w, h')))
       \<and> (obj = Obj c p \<and> objects h p a = Some (Value x) \<and> type_of x \<noteq> T_method \<longrightarrow>
            BaseObjectWrapper_setattr w a v h
              = Some (Inr (w, h\<lparr>objects := (objects h)(p := (objects h p)(a \<mapsto> Value v))\<rparr>))
            \<and> py_getattr (h\<lparr>objects := (objects h)(p := (objects h p)(a \<mapsto> Value v))\<rparr>)
                obj a = Inr v)
       \<and> (\<not> py_hasattr h obj a \<and> a \<notin> set (cproperties (wcls w))
            \<and> a \<notin> {''__weakref__'', ''__dict__'', ''__class__''} \<longrightarrow>
            BaseObjectWrapper_setattr w a v h
              = Some (Inr (w\<lparr>wdict := (wdict w)(a \<mapsto> v)\<rparr>, h)))
       \<and> (\<not> py_hasattr h obj a \<and> a \<in> set (cproperties (wcls w)) \<longrightarrow>
            BaseObjectWrapper_setattr w a v h = Some (Inl AttributeError))"
proof -
  have slot: "wdict w ''_revit_object'' = Some obj"
    using init_slot [OF assms] by simp
  have rd: "BaseObjectWrapper_getattr w a h = Some (Inr x)"
    if "py_getattr h obj a = Inr x"
    using that by (simp add: getattr_with_slot [OF slot])
  have thru: "BaseObjectWrapper_setattr w a v h
                = Some (case py_setattr h obj a v of Inl e \<Rightarrow> Inl e | Inr h' \<Rightarrow> Inr (w, h'))"
    if "py_hasattr h obj a"
    using that
    by (simp add: BaseObjectWrapper_setattr_def self_revit_object_with_slot [OF slot]
        split: sum.splits)
  have plain: "BaseObjectWrapper_setattr w a v h
              = Some (Inr (w, h\<lparr>objects := (objects h)(p := (objects h p)(a \<mapsto> Value v))\<rparr>))"
    if "obj = Obj c p" and "objects h p a = Some (Value x)" and "type_of x \<noteq> T_method"
    using that slot
    by (cases x)
      (simp_all add: BaseObjectWrapper_setattr_def self_revit_object_with_slot
        py_hasattr_def py_getattr_def)
  have after: "py_getattr (h\<lparr>objects := (objects h)(p := (objects h p)(a \<mapsto> Value v))\<rparr>)
                 obj a = Inr v"
    if "obj = Obj c p"
    using that by (simp add: py_getattr_def)
  have loc: "BaseObjectWrapper_setattr w a v h
               = Some (Inr (w\<lparr>wdict := (wdict w)(a \<mapsto> v)\<rparr>, h))"
    if "\<not> py_hasattr h obj a" and "a \<notin> set (cproperties (wcls w))"
      and "a \<notin> {''__weakref__'', ''__dict__'', ''__class__''}"
    using that
    by (simp add: BaseObjectWrapper_setattr_def self_revit_object_with_slot [OF slot]
        object_setattr_def)
  have refused: "BaseObjectWrapper_setattr w a v h = Some (Inl AttributeError)"
    if "\<not> py_hasattr h obj a" and "a \<in> set (cproperties (wcls w))"
    using that
    by (simp add: BaseObjectWrapper_setattr_def self_revit_object_with_slot [OF slot]
        object_setattr_def)
  show ?thesis using rd thru plain after loc refused by blast
qed

theorem attribute_delegation_witness:
  "BaseObjectWrapper_init Wall_class (Obj ''Wall'' 0) = Inr wall_wrapper
   \<and> py_getattr sample_host (Obj ''Wall'' 0) ''Name'' = Inr (PyStr ''W1'')
   \<and> \<not> defined_on_wrapper wall_wrapper ''Name''
   \<and> BaseObjectWrapper_getattr wall_wrapper ''Name'' sample_host = Some (Inr (PyStr ''W1''))
   \<and> py_hasattr sample_host (Obj ''Wall'' 0) ''Name''
   \<and> objects sample_host 0 ''Name'' = Some (Value (PyStr ''W1''))
   \<and> BaseObjectWrapper_setattr wall_wrapper ''Name'' (PyStr ''W2'') sample_host
        = Some (Inr (wall_wrapper,
               sample_host\<lparr>objects := (objects sample_host)
                 (0 := (objects sample_host 0)(''Name'' \<mapsto> Value (PyStr ''W2'')))\<rparr>))
   \<and> py_getattr (sample_host\<lparr>objects := (objects sample_host)
                 (0 := (objects sample_host 0)(''Name'' \<mapsto> Value (PyStr ''W2'')))\<rparr>)
        (Obj ''Wall'' 0) ''Name'' = Inr (PyStr ''W2'')
   \<and> type_of (PyStr ''W1'') \<noteq> T_method
   \<and> py_hasattr sample_host (Obj ''Wall'' 0) ''ToString''
   \<and> BaseObjectWrapper_setattr wall_wrapper ''ToString'' (PyStr ''W2'') sample_host
        = Some (Inl AttributeError)
   \<and> \<not> py_hasattr sample_host (Obj ''Wall'' 0) ''Mark''
   \<and> ''Mark'' \<notin> set (cproperties (wcls wall_wrapper))
   \<and> ''Mark'' \<notin> {''__weakref__'', ''__dict__'', ''__class__''}
   \<and> BaseObjectWrapper_setattr wall_wrapper ''Mark'' (PyInt 3) sample_host
        = Some (Inr (wall_wrapper\<lparr>wdict := (wdict wall_wrapper)(''Mark'' \<mapsto> PyInt 3)\<rparr>,
                     sample_host))
   \<and> BaseObjectWrapper_init Selection_class UISelection = Inr selection_wrapper
   \<and> \<not> py_hasattr sample_host UISelection ''elements''
   \<and> ''elements'' \<in> set (cproperties (wcls selection_wrapper))
   \<and> BaseObjectWrapper_setattr selection_wrapper ''elements'' (PyInt 5) sample_host
        = Some (Inl AttributeError)"
proof -
  have n: "objects sample_host 0 ''Name'' = Some (Value (PyStr ''W1''))"
    by (simp add: sample_host_def)
  have g: "py_getattr sample_host (Obj ''Wall'' 0) ''Name'' = Inr (PyStr ''W1'')"
    by (simp add: py_getattr_def n)
  have hn: "py_hasattr sample_host (Obj ''Wall'' 0) ''Name''"
    by (simp add: py_hasattr_def g)
  have d: "\<not> defined_on_wrapper wall_wrapper ''Name''"
    by (simp add: defined_on_wrapper_def wall_wrapper_def Wall_class_def
        BaseObjectWrapper_class_def instance_names_def object_names_def)
  have t: "py_hasattr sample_host (Obj ''Wall'' 0) ''ToString''"
    by (simp add: py_hasattr_def py_getattr_def sample_host_def)
  have ts: "py_setattr sample_host (Obj ''Wall'' 0) ''ToString'' (PyStr ''W2'')
              = Inl AttributeError"
    by (simp add: sample_host_def)
  have m: "\<not> py_hasattr sample_host (Obj ''Wall'' 0) ''Mark''"
    by (simp add: py_hasattr_def py_getattr_def sample_host_def object_names_def)
  have q: "''Mark'' \<notin> set (cproperties (wcls wall_wrapper))"
    by (simp add: wall_wrapper_def Wall_class_def)
  have e: "\<not> py_hasattr sample_host UISelection ''elements''"
    by (simp add: py_hasattr_def py_getattr_def object_names_def)
  have p: "''elements'' \<in> set (cproperties (wcls selection_wrapper))"
    by (simp add: selection_wrapper_def Selection_class_def)
  show ?thesis
    using init_wall_wrapper init_selection_wrapper n g hn d t ts m q e p
      attribute_delegation [OF init_wall_wrapper,
        of sample_host "''Name''" "PyStr ''W1''" "PyStr ''W2''" "''Wall''" 0]
      attribute_delegation [OF init_wall_wrapper,
        of sample_host "''ToString''" "PyStr ''W1''" "PyStr ''W2''" "''Wall''" 1]
      attribute_delegation [OF init_wall_wrapper,
        of sample_host "''Mark''" "PyStr ''W1''" "PyInt 3" "''Wall''" 0]
      attribute_delegation [OF init_selection_wrapper,
        of sample_host "''elements''" "PyStr ''W1''" "PyInt 5" "''Wall''" 0]
    by simp
qed

text \<open>
  C4 as stated fails: the selection object has no attribute \<^verbatim>\<open>elements\<close>, yet assigning
  to \<^verbatim>\<open>elements\<close> on the selection wrapper stores nothing and raises, since the name is
  a read-only property of the wrapper class; and the selection object has
  \<^verbatim>\<open>GetElementIds\<close>, yet the assignment written through to it is refused.
\<close>

theorem setattr_refused_counterexample:
  "BaseObjectWrapper_init Selection_class UISelection = Inr selection_wrapper
   \<and> \<not> py_hasattr sample_host UISelection ''elements''
   \<and> BaseObjectWrapper_setattr selection_wrapper ''elements'' (PyInt 5) sample_host
        = Some (Inl AttributeError)
   \<and> BaseObjectWrapper_setattr selection_wrapper ''elements'' (PyInt 5) sample_host
        \<noteq> Some (Inr (selection_wrapper
                         \<lparr>wdict := (wdict selection_wrapper)(''elements'' \<mapsto> PyInt 5)\<rparr>,
                       sample_host))
   \<and> py_hasattr sample_host UISelection ''GetElementIds''
   \<and> BaseObjectWrapper_setattr selection_wrapper ''GetElementIds'' (PyInt 5) sample_host
        = Some (Inl AttributeError)"
proof -
  have s: "self_revit_object selection_wrapper sample_host = Some (Inr UISelection)"
    by (simp add: self_revit_object_def selection_wrapper_def)
  have e: "\<not> py_hasattr sample_host UISelection ''elements''"
    by (simp add: py_hasattr_def py_getattr_def object_names_def)
  have g: "py_hasattr sample_host UISelection ''GetElementIds''"
    by (simp add: py_hasattr_def py_getattr_def)
  have p: "object_setattr selection_wrapper ''elements'' (PyInt 5) = Inl AttributeError"
    by (simp add: object_setattr_def selection_wrapper_def Selection_class_def)
  show ?thesis
    using init_selection_wrapper
    by (simp add: BaseObjectWrapper_setattr_def s e g p)
qed

text \<open>
  C3: both walls raise \<^verbatim>\<open>KeyError\<close> from their \<^verbatim>\<open>Parameters\<close> property, and the
  wrappers around them hold their handles. Reading \<^verbatim>\<open>Parameters\<close> through the wrapper
  of the wall at address 0 ends in the wrapper's own exception (the one whose message
  says that the wrapper is missing its handle); through the wrapper of the wall at
  address 2, which has no \<^verbatim>\<open>ToString\<close>, it ends in the \<^verbatim>\<open>AttributeError\<close> that
  formatting that message raises. In neither case does the handle's \<^verbatim>\<open>KeyError\<close> reach
  the caller, while an error of another class, such as the \<^verbatim>\<open>AttributeError\<close> for a
  name the wall does not have, passes through unchanged.
\<close>

theorem getattr_translates_handle_KeyError:
  "BaseObjectWrapper_init Wall_class (Obj ''Wall'' 0) = Inr wall_wrapper
   \<and> wdict wall_wrapper ''_revit_object'' = Some (Obj ''Wall'' 0)
   \<and> py_getattr sample_host (Obj ''Wall'' 0) ''Parameters'' = Inl KeyError
   \<and> call_ToString (Obj ''Wall'' 0) sample_host = Inr ()
   \<and> BaseObjectWrapper_getattr wall_wrapper ''Parameters'' sample_host = Some (Inl RpwException)
   \<and> wdict bare_wall_wrapper ''_revit_object'' = Some (Obj ''Wall'' 2)
   \<and> py_getattr sample_host (Obj ''Wall'' 2) ''Parameters'' = Inl KeyError
   \<and> call_ToString (Obj ''Wall'' 2) sample_host = Inl AttributeError
   \<and> BaseObjectWrapper_getattr bare_wall_wrapper ''Parameters'' sample_host
        = Some (Inl AttributeError)
   \<and> py_getattr sample_host (Obj ''Wall'' 0) ''Level'' = Inl AttributeError
   \<and> BaseObjectWrapper_getattr wall_wrapper ''Level'' sample_host = Some (Inl AttributeError)"
proof -
  have s0: "wdict wall_wrapper ''_revit_object'' = Some (Obj ''Wall'' 0)"
    by (simp add: wall_wrapper_def)
  have s1: "wdict bare_wall_wrapper ''_revit_object'' = Some (Obj ''Wall'' 2)"
    by (simp add: bare_wall_wrapper_def)
  have k0: "py_getattr sample_host (Obj ''Wall'' 0) ''Parameters'' = Inl KeyError"
    by (simp add: py_getattr_def sample_host_def)
  have k1: "py_getattr sample_host (Obj ''Wall'' 2) ''Parameters'' = Inl KeyError"
    by (simp add: py_getattr_def sample_host_def)
  have l0: "py_getattr sample_host (Obj ''Wall'' 0) ''Level'' = Inl AttributeError"
    by (simp add: py_getattr_def sample_host_def object_names_def)
  have t0: "call_ToString (Obj ''Wall'' 0) sample_host = Inr ()"
    by (simp add: call_ToString_def py_getattr_def sample_host_def)
  have t1: "call_ToString (Obj ''Wall'' 2) sample_host = Inl AttributeError"
    by (simp add: call_ToString_def py_getattr_def sample_host_def object_names_def)
  have r0: "raise_RPW_Exception wall_wrapper sample_host (Inr (Obj ''Wall'' 0)) = Inl RpwException"
    by (simp add: raise_RPW_Exception_def BaseObjectWrapper_repr_def t0 wall_wrapper_def
        Wall_class_def)
  have r1: "raise_RPW_Exception bare_wall_wrapper sample_host (Inr (Obj ''Wall'' 2))
              = Inl AttributeError"
    using t1
    by (simp add: raise_RPW_Exception_def BaseObjectWrapper_repr_def bare_wall_wrapper_def
        Wall_class_def)
  show ?thesis
    using init_wall_wrapper s0 s1 k0 k1 l0 t0 t1
    by (simp add: getattr_with_slot [OF s0] getattr_with_slot [OF s1] r0 r1)
qed

end
